theory Spec2Isabelle
  imports Main "HOL-Library.Sublist" "HOL-Library.AList"
begin

section \<open>Python strings\<close>

text \<open>
  A Python \<open>str\<close> is modelled as a \<open>string\<close>, one \<open>char\<close> per code point; the model
  covers the code points below 256, and \<open>length\<close> is Python's \<open>len\<close>.
\<close>

text \<open>\<open>sub in s\<close> on strings: \<open>sub\<close> occurs in \<open>s\<close> as a contiguous run.\<close>

fun py_in :: "string \<Rightarrow> string \<Rightarrow> bool" where
  "py_in sub [] = (sub = [])"
| "py_in sub (c # cs) = (prefix sub (c # cs) \<or> py_in sub cs)"

text \<open>
  \<open>s.replace(old, new)\<close>: the occurrences of \<open>old\<close> are replaced from left to right
  without overlap. Every call in the source passes a non-empty literal for \<open>old\<close>.
\<close>

function py_replace :: "string \<Rightarrow> string \<Rightarrow> string \<Rightarrow> string" where
  "py_replace old new [] = []"
| "py_replace old new (c # cs) =
     (if old \<noteq> [] \<and> prefix old (c # cs)
      then new @ py_replace old new (drop (length old) (c # cs))
      else c # py_replace old new cs)"
  by pat_completeness auto
termination
  by (relation "measure (\<lambda>(old, new, s). length s)") (auto simp: neq_Nil_conv)

text \<open>
  \<open>s.lower()\<close> on the code points below 256: A to Z, and the accented capitals
  U+00C0 to U+00DE without the multiplication sign U+00D7, move up by 32.
\<close>

definition lower_char :: "char \<Rightarrow> char" where
  "lower_char c =
     (let n = (of_char c :: nat)
      in if (65 \<le> n \<and> n \<le> 90) \<or> (192 \<le> n \<and> n \<le> 222 \<and> n \<noteq> 215)
         then char_of (n + 32) else c)"

definition py_lower :: "string \<Rightarrow> string" where
  "py_lower s = map lower_char s"

text \<open>\<open>sep.join(xs)\<close>.\<close>

fun py_join :: "string \<Rightarrow> string list \<Rightarrow> string" where
  "py_join sep [] = []"
| "py_join sep [x] = x"
| "py_join sep (x # y # ys) = x @ sep @ py_join sep (y # ys)"

section \<open>models.py: the field catalog\<close>

text \<open>
  \<open>CARGO_MAPPING\<close> is read from \<open>cargo_mapping.json\<close>, a file outside the sources: a
  dictionary from table names to field lists, \<open>{}\<close> when the file is missing or does
  not load. It is a parameter of everything below, as an association list with
  distinct keys.
\<close>

type_synonym catalog = "(string \<times> string list) list"

definition CLASS_TO_TABLE :: "(string \<times> string) list" where
  "CLASS_TO_TABLE =
    [(''One-Handed Axe'', ''weapons''), (''Two-Handed Axe'', ''weapons''),
     (''One-Handed Mace'', ''weapons''), (''Two-Handed Mace'', ''weapons''),
     (''One-Handed Sword'', ''weapons''), (''Two-Handed Sword'', ''weapons''),
     (''Bow'', ''weapons''), (''Claw'', ''weapons''), (''Dagger'', ''weapons''),
     (''Rune Dagger'', ''weapons''), (''Staff'', ''weapons''), (''Warstaff'', ''weapons''),
     (''Wand'', ''weapons''), (''Sceptre'', ''weapons''),
     (''Body Armour'', ''armours''), (''Helmet'', ''armours''), (''Boots'', ''armours''),
     (''Gloves'', ''armours''), (''Shield'', ''armours''),
     (''Skill Gem'', ''skill_gems''), (''Support Gem'', ''skill_gems''),
     (''Map'', ''maps''), (''Jewel'', ''jewels''), (''Abyss Jewel'', ''jewels''),
     (''Flask'', ''flasks''), (''Amulet'', ''amulets''), (''Ring'', ''items''),
     (''Belt'', ''items''), (''Divination Card'', ''divination_cards''),
     (''Skill'', ''skill''), (''Monster'', ''monsters''), (''Pantheon'', ''pantheon''),
     (''Passive Skill'', ''passive_skills'')]"

definition get_table_for_class :: "string \<Rightarrow> string option" where
  "get_table_for_class item_class = map_of CLASS_TO_TABLE item_class"

definition get_fields_for_table :: "catalog \<Rightarrow> string \<Rightarrow> string list" where
  "get_fields_for_table CARGO_MAPPING table =
     (case map_of CARGO_MAPPING table of None \<Rightarrow> [] | Some fs \<Rightarrow> fs)"

definition validate_field :: "catalog \<Rightarrow> string \<Rightarrow> string \<Rightarrow> bool" where
  "validate_field CARGO_MAPPING table field =
     (if CARGO_MAPPING = [] then True
      else (let table_fields = (case map_of CARGO_MAPPING table of None \<Rightarrow> [] | Some fs \<Rightarrow> fs);
                field_normalized = py_replace '' '' ''_'' field
            in field_normalized \<in> set table_fields \<or> field \<in> set table_fields))"

section \<open>The remote query API\<close>

text \<open>
  Every lookup is one \<open>client.get(settings.poe_wiki_api_url, params=...)\<close>. The remote
  service is a function from the request parameters to what comes back, so that during
  one lookup the same request meets the same answer: no response at all (the call
  raises), or a status code with a body that decodes as JSON or does not
  (\<open>response.json()\<close> raises). A decoded body has the shape of the wiki's answers:
  an object that may hold an \<open>error\<close> key, a \<open>cargoquery\<close> list of rows and, for
  image lookups, \<open>query.pages\<close>. A row is an object that holds, under \<open>title\<close>, the
  mapping from field names to strings; a field that is missing or \<open>null\<close> maps to
  \<open>None\<close>.
\<close>

datatype exn = RequestError | HTTPStatusError | JSONDecodeError | KeyError | ReError

datatype param = PStr string | PInt int

type_synonym params = "(string \<times> param) list"

type_synonym title = "string \<Rightarrow> string option"

type_synonym row = "title option"

record page =
  page_title :: "string option"
  imageinfo :: "string option list"

record envelope =
  has_error :: bool
  cargoquery :: "row list option"
  pages :: "(string \<times> page) list"

datatype response = NoResponse | Response nat "envelope option"

type_synonym http = "params \<Rightarrow> response"

text \<open>Python's truth value of an optional string: \<open>None\<close> and \<open>""\<close> are false.\<close>

fun truthy :: "string option \<Rightarrow> bool" where
  "truthy None = False"
| "truthy (Some s) = (s \<noteq> [])"

text \<open>\<open>a or b\<close> on optional strings.\<close>

definition py_or :: "string option \<Rightarrow> string option \<Rightarrow> string option" where
  "py_or a b = (if truthy a then a else b)"

text \<open>\<open>response.raise_for_status()\<close>: anything but a 2xx status raises.\<close>

definition raise_for_status :: "nat \<Rightarrow> exn + unit" where
  "raise_for_status status = (if 200 \<le> status \<and> status < 300 then Inr () else Inl HTTPStatusError)"

text \<open>\<open>client.get(...)\<close> followed by \<open>.json()\<close>, with no look at the status.\<close>

definition get_json :: "http \<Rightarrow> params \<Rightarrow> exn + envelope" where
  "get_json client ps =
     (case client ps of
        NoResponse \<Rightarrow> Inl RequestError
      | Response status None \<Rightarrow> Inl JSONDecodeError
      | Response status (Some data) \<Rightarrow> Inr data)"

text \<open>The same with \<open>raise_for_status()\<close> between the two.\<close>

definition get_json_checked :: "http \<Rightarrow> params \<Rightarrow> exn + envelope" where
  "get_json_checked client ps =
     (case client ps of
        NoResponse \<Rightarrow> Inl RequestError
      | Response status body \<Rightarrow>
          (case raise_for_status status of
             Inl e \<Rightarrow> Inl e
           | Inr _ \<Rightarrow> (case body of None \<Rightarrow> Inl JSONDecodeError | Some data \<Rightarrow> Inr data)))"

text \<open>\<open>data.get("cargoquery", [])\<close>.\<close>

definition rows :: "envelope \<Rightarrow> row list" where
  "rows data = (case cargoquery data of None \<Rightarrow> [] | Some rs \<Rightarrow> rs)"

definition apostrophe :: string where
  "apostrophe = [CHR 0x27]"

text \<open>\<open>name.replace("'", "''")\<close>.\<close>

definition safe :: "string \<Rightarrow> string" where
  "safe nm = py_replace apostrophe (apostrophe @ apostrophe) nm"

section \<open>api.py: image lookups\<close>

function chunks50 :: "'a list \<Rightarrow> 'a list list" where
  "chunks50 xs = (if xs = [] then [] else take 50 xs # chunks50 (drop 50 xs))"
  by pat_completeness auto
termination
  by (relation "measure length") auto

declare chunks50.simps [simp del]

text \<open>The pages of one answer: a page with image info and a title stores its first URL.\<close>

fun store_pages :: "(string \<times> page) list \<Rightarrow> (string \<Rightarrow> string option) \<Rightarrow> (string \<Rightarrow> string option)" where
  "store_pages [] results = results"
| "store_pages ((page_id, pg) # ps) results =
     (case (imageinfo pg, page_title pg) of
        (info # _, Some t) \<Rightarrow>
          (if t \<noteq> [] then store_pages ps (results(t := info)) else store_pages ps results)
      | _ \<Rightarrow> store_pages ps results)"

fun get_image_chunks :: "http \<Rightarrow> string list list \<Rightarrow> (string \<Rightarrow> string option) \<Rightarrow> (string \<Rightarrow> string option)" where
  "get_image_chunks client [] results = results"
| "get_image_chunks client (chunk # cs) results =
     (case get_json_checked client
             [(''action'', PStr ''query''), (''titles'', PStr (py_join ''|'' chunk)),
              (''prop'', PStr ''imageinfo''), (''iiprop'', PStr ''url''), (''format'', PStr ''json'')] of
        Inl e \<Rightarrow> get_image_chunks client cs results
      | Inr data \<Rightarrow> get_image_chunks client cs (store_pages (pages data) results))"

definition get_image_urls :: "http \<Rightarrow> string list \<Rightarrow> (string \<Rightarrow> string option)" where
  "get_image_urls client file_names =
     (if file_names = [] then Map.empty
      else get_image_chunks client (chunks50 file_names) Map.empty)"

section \<open>api.py: the two patterns of the fallback path\<close>

text \<open>
  \<open>\d\<close> on the code points below 256 is the ten ASCII digits.
\<close>

definition is_digit :: "char \<Rightarrow> bool" where
  "is_digit c = (let n = (of_char c :: nat) in 48 \<le> n \<and> n \<le> 57)"

text \<open>
  The pattern \<open>\(\d+-\d+\)\<close> at the head of a string: an opening parenthesis, the
  longest run of digits (at least one), a hyphen, the longest run of digits (at least
  one), a closing parenthesis. A shorter run of digits never helps, since the
  character after it is a digit. The result is the matched text and what follows it.
\<close>

definition match_range :: "string \<Rightarrow> (string \<times> string) option" where
  "match_range s =
     (case s of
        [] \<Rightarrow> None
      | c # s1 \<Rightarrow>
          if c \<noteq> CHR ''('' \<or> takeWhile is_digit s1 = [] then None
          else (case dropWhile is_digit s1 of
                  [] \<Rightarrow> None
                | d # s2 \<Rightarrow>
                    if d \<noteq> CHR ''-'' \<or> takeWhile is_digit s2 = [] then None
                    else (case dropWhile is_digit s2 of
                            [] \<Rightarrow> None
                          | e # s3 \<Rightarrow>
                              if e \<noteq> CHR '')'' then None
                              else Some (''('' @ takeWhile is_digit s1 @ ''-''
                                           @ takeWhile is_digit s2 @ '')'', s3))))"

text \<open>
  \<open>re.sub(r'\(\d+-\d+\)', repl, s)\<close> once the replacement is known as a function of
  the matched text: matches are found from left to right and do not overlap.
\<close>

function sub_range :: "(string \<Rightarrow> string) \<Rightarrow> string \<Rightarrow> string" where
  "sub_range f [] = []"
| "sub_range f (c # cs) =
     (case match_range (c # cs) of
        Some (m, rest) \<Rightarrow> f m @ sub_range f rest
      | None \<Rightarrow> c # sub_range f cs)"
  by pat_completeness auto
termination
proof (relation "measure (\<lambda>(f, s). length s)")
  fix f :: "string \<Rightarrow> string" and c cs x2 m rest
  assume "match_range (c # cs) = Some x2" and "(m, rest) = x2"
  then have "match_range (c # cs) = Some (m, rest)" by simp
  then obtain s2 where a: "dropWhile is_digit cs = CHR ''-'' # s2"
    and b: "dropWhile is_digit s2 = CHR '')'' # rest"
    by (auto simp: match_range_def split: list.splits if_splits)
  have "length rest < length s2"
    using length_dropWhile_le [of is_digit s2] b by simp
  moreover have "length s2 < length cs"
    using length_dropWhile_le [of is_digit cs] a by simp
  ultimately show "((f, rest), (f, c # cs)) \<in> measure (\<lambda>(f, s). length s)" by simp
qed simp_all

text \<open>
  A replacement string that holds no backslash stands for itself. One that holds a
  backslash is a template of Python's \<open>re\<close> module (escapes, references to the
  match); what \<open>re\<close> makes of it is the parameter \<open>tmpl\<close>: \<open>None\<close> when the template
  is rejected (\<open>re.error\<close>, raised before any matching), or the replacement as a function
  of the matched text.
\<close>

type_synonym template = "string \<Rightarrow> (string \<Rightarrow> string) option"

definition backslash :: char where
  "backslash = CHR 0x5C"

definition re_sub_range :: "template \<Rightarrow> string \<Rightarrow> string \<Rightarrow> exn + string" where
  "re_sub_range tmpl repl s =
     (if backslash \<in> set repl
      then (case tmpl repl of None \<Rightarrow> Inl ReError | Some f \<Rightarrow> Inr (sub_range f s))
      else Inr (sub_range (\<lambda>m. repl) s))"

text \<open>
  The pattern \<open>\[\[(?:[^|\]]*\|)?([^\]]+)\]\]\<close> at the head of a string. After the two
  opening brackets the optional part is tried first: the longest run free of \<open>|\<close> and
  \<open>]\<close>, then a \<open>|\<close>. The group is the longest run free of \<open>]\<close> (at least one
  character), and two closing brackets end the match. When the attempt with the optional
  part fails, the group is read again right after the opening brackets. The result is
  the group and what follows the match.
\<close>

definition link_group :: "string \<Rightarrow> (string \<times> string) option" where
  "link_group s =
     (let g = takeWhile (\<lambda>c. c \<noteq> CHR '']'') s; r = dropWhile (\<lambda>c. c \<noteq> CHR '']'') s
      in if g \<noteq> [] \<and> prefix '']]'' r then Some (g, drop 2 r) else None)"

definition match_link :: "string \<Rightarrow> (string \<times> string) option" where
  "match_link s =
     (if prefix ''[['' s
      then (let s1 = drop 2 s;
                r = dropWhile (\<lambda>c. c \<noteq> CHR ''|'' \<and> c \<noteq> CHR '']'') s1
            in (case r of
                  [] \<Rightarrow> link_group s1
                | d # s2 \<Rightarrow>
                    if d = CHR ''|''
                    then (case link_group s2 of Some res \<Rightarrow> Some res | None \<Rightarrow> link_group s1)
                    else link_group s1))
      else None)"

text \<open>\<open>re.sub(r'\[\[(?:[^|\]]*\|)?([^\]]+)\]\]', r'\1', s)\<close>.\<close>

function strip_links :: "string \<Rightarrow> string" where
  "strip_links [] = []"
| "strip_links (c # cs) =
     (case match_link (c # cs) of
        Some (g, rest) \<Rightarrow> g @ strip_links rest
      | None \<Rightarrow> c # strip_links cs)"
  by pat_completeness auto
termination
proof (relation "measure length")
  fix c cs x2 g rest
  assume "match_link (c # cs) = Some x2" and "(g, rest) = x2"
  then have m: "match_link (c # cs) = Some (g, rest)" by simp
  have lg: "length r < length t" if "link_group t = Some (g', r)" for t g' r
  proof -
    from that have "length (dropWhile (\<lambda>c. c \<noteq> CHR '']'') t) = length r + 2"
      by (auto simp: link_group_def Let_def prefix_def split: if_splits)
    then show ?thesis
      using length_dropWhile_le [of "\<lambda>c. c \<noteq> CHR '']''" t] by simp
  qed
  have "\<exists>t. length t \<le> length (c # cs) \<and> link_group t = Some (g, rest)"
  proof -
    let ?s1 = "drop 2 (c # cs)"
    let ?r = "dropWhile (\<lambda>c. c \<noteq> CHR ''|'' \<and> c \<noteq> CHR '']'') ?s1"
    from m consider "link_group ?s1 = Some (g, rest)"
      | s2 where "?r = CHR ''|'' # s2" "link_group s2 = Some (g, rest)"
      by (auto simp: match_link_def Let_def split: if_splits list.splits option.splits)
    then show ?thesis
    proof cases
      case 1
      then show ?thesis by (intro exI [of _ ?s1]) simp
    next
      case 2
      have "length s2 \<le> length ?r" using 2 by simp
      also have "\<dots> \<le> length ?s1" by (rule length_dropWhile_le)
      finally show ?thesis using 2 by (intro exI [of _ s2]) simp
    qed
  qed
  then show "(rest, c # cs) \<in> measure length" using lg by fastforce
qed simp_all

section \<open>api.py: the fallback path for mods\<close>

text \<open>
  Dictionaries that are iterated are association lists in insertion order;
  \<open>d[k] = v\<close> is \<open>AList.update\<close>, which keeps the place of a key that is already there.
  \<open>mod_info_map\<close> maps a mod id to its two flags \<open>(is_implicit, is_explicit)\<close>.
\<close>

type_synonym mod_info = "(string \<times> (bool \<times> bool)) list"

fun build_mod_info_map :: "row list \<Rightarrow> mod_info \<Rightarrow> exn + mod_info" where
  "build_mod_info_map [] mod_info_map = Inr mod_info_map"
| "build_mod_info_map (None # rms) mod_info_map = Inl KeyError"
| "build_mod_info_map (Some mod_title # rms) mod_info_map =
     (case mod_title ''id'' of
        None \<Rightarrow> build_mod_info_map rms mod_info_map
      | Some mod_id \<Rightarrow>
          if mod_id \<noteq> []
          then build_mod_info_map rms
                 (AList.update mod_id
                    (mod_title ''is implicit'' = Some ''1'', mod_title ''is explicit'' = Some ''1'')
                    mod_info_map)
          else build_mod_info_map rms mod_info_map)"

fun build_stat_texts :: "row list \<Rightarrow> (string \<times> string) list \<Rightarrow> exn + (string \<times> string) list" where
  "build_stat_texts [] stat_texts = Inr stat_texts"
| "build_stat_texts (None # mqs) stat_texts = Inl KeyError"
| "build_stat_texts (Some m_title # mqs) stat_texts =
     (case (m_title ''id'', m_title ''stat text'') of
        (Some m_id, Some m_text) \<Rightarrow>
          if m_id \<noteq> [] \<and> m_text \<noteq> []
          then (if py_in ''(Hidden)'' m_text then build_stat_texts mqs stat_texts
                else build_stat_texts mqs (AList.update m_id m_text stat_texts))
          else build_stat_texts mqs stat_texts
      | _ \<Rightarrow> build_stat_texts mqs stat_texts)"

text \<open>
  The statistics query has a handler of its own: when a row raises, the rows grouped
  so far stay in \<open>item_stats_map\<close>.
\<close>

type_synonym item_stats = "string option \<Rightarrow> title list option"

fun build_item_stats_map :: "row list \<Rightarrow> item_stats \<Rightarrow> item_stats" where
  "build_item_stats_map [] item_stats_map = item_stats_map"
| "build_item_stats_map (None # sqs) item_stats_map = item_stats_map"
| "build_item_stats_map (Some s_title # sqs) item_stats_map =
     build_item_stats_map sqs
       (item_stats_map (s_title ''mod id'' \<mapsto>
          (case item_stats_map (s_title ''mod id'') of None \<Rightarrow> [] | Some l \<Rightarrow> l) @ [s_title]))"

text \<open>The body of \<open>for stat in item_stats_map[mod_id]\<close>, for one \<open>stat\<close>.\<close>

definition apply_stat :: "template \<Rightarrow> title \<Rightarrow> string \<Rightarrow> exn + string" where
  "apply_stat tmpl stat stat_text =
     (case (stat ''min'', stat ''max'') of
        (Some s_min, Some s_max) \<Rightarrow>
          if s_min \<noteq> [] \<and> s_max \<noteq> []
          then (if s_min = s_max
                then (case re_sub_range tmpl s_min stat_text of
                        Inl e \<Rightarrow> Inl e
                      | Inr t \<Rightarrow> Inr (py_replace ''#'' s_min t))
                else re_sub_range tmpl (''('' @ s_min @ ''-'' @ s_max @ '')'') stat_text)
          else Inr stat_text
      | _ \<Rightarrow> Inr stat_text)"

fun apply_stats :: "template \<Rightarrow> title list \<Rightarrow> string \<Rightarrow> exn + string" where
  "apply_stats tmpl [] stat_text = Inr stat_text"
| "apply_stats tmpl (stat # sts) stat_text =
     (case apply_stat tmpl stat stat_text of
        Inl e \<Rightarrow> Inl e
      | Inr t \<Rightarrow> apply_stats tmpl sts t)"

text \<open>One mod's text: the placeholders, then the wiki links.\<close>

definition render_mod :: "template \<Rightarrow> item_stats \<Rightarrow> string \<Rightarrow> string \<Rightarrow> exn + string" where
  "render_mod tmpl item_stats_map mod_id stat_text =
     (case apply_stats tmpl
             (case item_stats_map (Some mod_id) of None \<Rightarrow> [] | Some sts \<Rightarrow> sts) stat_text of
        Inl e \<Rightarrow> Inl e
      | Inr t \<Rightarrow> Inr (strip_links t))"

text \<open>
  The loop \<open>for mod_id, stat_text in stat_texts.items()\<close> with the two output lists.
  An exception in it (a rejected replacement template, a mod id unknown to
  \<open>mod_info_map\<close>) leaves the function through the outer handler, which returns the
  lists as they are.
\<close>

fun assemble :: "template \<Rightarrow> mod_info \<Rightarrow> item_stats \<Rightarrow> (string \<times> string) list
                 \<Rightarrow> string list \<times> string list \<Rightarrow> string list \<times> string list" where
  "assemble tmpl mod_info_map item_stats_map [] (implicits, explicits) = (implicits, explicits)"
| "assemble tmpl mod_info_map item_stats_map ((mod_id, stat_text) # sts) (implicits, explicits) =
     (case render_mod tmpl item_stats_map mod_id stat_text of
        Inl e \<Rightarrow> (implicits, explicits)
      | Inr t \<Rightarrow>
          (case map_of mod_info_map mod_id of
             None \<Rightarrow> (implicits, explicits)
           | Some (is_implicit, is_explicit) \<Rightarrow>
               if is_implicit
               then assemble tmpl mod_info_map item_stats_map sts (implicits @ [t], explicits)
               else if is_explicit
               then assemble tmpl mod_info_map item_stats_map sts (implicits, explicits @ [t])
               else assemble tmpl mod_info_map item_stats_map sts (implicits, explicits)))"

definition in_list :: "string list \<Rightarrow> string" where
  "in_list mod_ids = ''IN ('' @ apostrophe @ py_join (apostrophe @ '','' @ apostrophe) mod_ids @ apostrophe @ '')''"

definition cargo_params :: "string \<Rightarrow> string \<Rightarrow> string \<Rightarrow> params" where
  "cargo_params tables field_list wh =
     [(''action'', PStr ''cargoquery''), (''tables'', PStr tables), (''fields'', PStr field_list),
      (''where'', PStr wh), (''format'', PStr ''json'')]"

definition page_name_is :: "string \<Rightarrow> string" where
  "page_name_is safe_name = ''_pageName='' @ apostrophe @ safe_name @ apostrophe"

definition name_is :: "string \<Rightarrow> string" where
  "name_is safe_name = ''name='' @ apostrophe @ safe_name @ apostrophe"

text \<open>The result is the pair of the lists under \<open>"implicit"\<close> and \<open>"explicit"\<close>.\<close>

definition get_mods_fallback :: "template \<Rightarrow> http \<Rightarrow> string \<Rightarrow> string list \<times> string list" where
  "get_mods_fallback tmpl client item_name =
     (let safe_name = safe item_name
      in case get_json client
                (cargo_params ''item_mods'' ''id,is_implicit,is_explicit'' (page_name_is safe_name)) of
           Inl e \<Rightarrow> ([], [])
         | Inr data \<Rightarrow>
             (case build_mod_info_map (rows data) [] of
                Inl e \<Rightarrow> ([], [])
              | Inr mod_info_map \<Rightarrow>
                  if mod_info_map = [] then ([], [])
                  else (let mod_ids = map fst mod_info_map
                        in case get_json client
                                  (cargo_params ''mods'' ''id,stat_text'' (''id '' @ in_list mod_ids)) of
                             Inl e \<Rightarrow> ([], [])
                           | Inr m_data \<Rightarrow>
                               (case build_stat_texts (rows m_data) [] of
                                  Inl e \<Rightarrow> ([], [])
                                | Inr stat_texts \<Rightarrow>
                                    (let item_stats_map =
                                       (case get_json client
                                               (cargo_params ''item_stats'' ''mod_id,min,max,avg''
                                                  (page_name_is safe_name @ '' AND mod_id '' @ in_list mod_ids)) of
                                          Inl e \<Rightarrow> Map.empty
                                        | Inr s_data \<Rightarrow> build_item_stats_map (rows s_data) Map.empty)
                                     in assemble tmpl mod_info_map item_stats_map stat_texts ([], []))))))"

section \<open>api.py: filling in an item\<close>

record Item =
  name :: string
  rarity :: string
  item_class :: string
  required_level :: "string option"
  flavour_text :: "string option"
  description :: "string option"
  implicit_mods :: "string option"
  explicit_mods :: "string option"
  image_url :: "string option"
  stats :: "(string \<times> string) list"

text \<open>
  The primary path for one of the two mod fields: the loop over the two spellings of
  the field name, with the value found so far. A raised exception and an answer with an
  \<open>error\<close> key both go on to the next spelling; a non-empty value ends the loop.
\<close>

fun query_mod_field :: "http \<Rightarrow> string \<Rightarrow> string list \<Rightarrow> string option \<Rightarrow> string option" where
  "query_mod_field client safe_name [] found = found"
| "query_mod_field client safe_name (field_name # fns) found =
     (case get_json client (cargo_params ''items'' field_name (name_is safe_name)) of
        Inl e \<Rightarrow> query_mod_field client safe_name fns found
      | Inr s_data \<Rightarrow>
          if has_error s_data then query_mod_field client safe_name fns found
          else (case rows s_data of
                  [] \<Rightarrow> query_mod_field client safe_name fns found
                | None # _ \<Rightarrow> query_mod_field client safe_name fns found
                | Some t # _ \<Rightarrow>
                    (let val = t field_name
                     in if truthy val then py_or val found
                        else query_mod_field client safe_name fns (py_or val found))))"

definition primary_mod :: "catalog \<Rightarrow> http \<Rightarrow> string \<Rightarrow> string \<Rightarrow> string option" where
  "primary_mod CARGO_MAPPING client safe_name field_to_check =
     (if \<not> validate_field CARGO_MAPPING ''items'' field_to_check then None
      else query_mod_field client safe_name
             [field_to_check, py_replace ''_'' '' '' field_to_check] None)"

text \<open>Step 1 of \<open>populate_item_details\<close>: the values of \<open>implicit\<close> and \<open>explicit\<close>.\<close>

definition resolve_mods :: "catalog \<Rightarrow> template \<Rightarrow> http \<Rightarrow> string \<Rightarrow> string option \<times> string option" where
  "resolve_mods CARGO_MAPPING tmpl client nm =
     (let implicit = primary_mod CARGO_MAPPING client (safe nm) ''implicit_mods'';
          explicit = primary_mod CARGO_MAPPING client (safe nm) ''explicit_mods''
      in if \<not> truthy implicit \<or> \<not> truthy explicit
         then (let fallback_mods = get_mods_fallback tmpl client nm;
                   implicit' = (if fst fallback_mods \<noteq> [] \<and> \<not> truthy implicit
                                then Some (py_join ''<br>'' (fst fallback_mods)) else implicit);
                   explicit' = (if snd fallback_mods \<noteq> [] \<and> \<not> truthy explicit
                                then Some (py_join ''<br>'' (snd fallback_mods)) else explicit)
               in (implicit', explicit'))
         else (implicit, explicit))"

text \<open>Step 2: required level, flavour text and description.\<close>

definition fetch_metadata :: "http \<Rightarrow> Item \<Rightarrow> Item" where
  "fetch_metadata client item =
     (case get_json client
             (cargo_params ''items'' ''required_level,flavour_text,description''
                (name_is (safe (name item)))) of
        Inl e \<Rightarrow> item
      | Inr data \<Rightarrow>
          (case rows data of
             [] \<Rightarrow> item
           | None # _ \<Rightarrow> item
           | Some s_item # _ \<Rightarrow>
               item\<lparr>required_level := py_or (s_item ''required level'') (required_level item),
                    flavour_text := py_or (s_item ''flavour text'') (flavour_text item),
                    description := py_or (s_item ''description'') (description item)\<rparr>))"

text \<open>Step 3: the fields asked of the supplementary table.\<close>

definition identity_fields :: "string list" where
  "identity_fields =
     [''name'', ''item_class'', ''rarity'', ''implicit_mods'', ''explicit_mods'', ''flavour_text'']"

definition excluded_patterns :: "string list" where
  "excluded_patterns = [''_min'', ''_max'', ''average'', ''color'', ''colour'']"

definition valid_fields :: "catalog \<Rightarrow> string \<Rightarrow> string list" where
  "valid_fields CARGO_MAPPING supplementary_table =
     filter (\<lambda>f. \<not> (f \<in> set identity_fields)
                \<and> \<not> (\<exists>sub \<in> set excluded_patterns. py_in sub (py_lower f))
                \<and> validate_field CARGO_MAPPING supplementary_table f)
            (get_fields_for_table CARGO_MAPPING supplementary_table)"

fun store_stats :: "title \<Rightarrow> string list \<Rightarrow> (string \<times> string) list \<Rightarrow> (string \<times> string) list" where
  "store_stats sup_item [] st = st"
| "store_stats sup_item (f # fs) st =
     (case sup_item (py_replace ''_'' '' '' f) of
        None \<Rightarrow> store_stats sup_item fs st
      | Some val \<Rightarrow>
          if val \<noteq> [] then store_stats sup_item fs (AList.update (py_replace '' '' ''_'' f) val st)
          else store_stats sup_item fs st)"

text \<open>The queries field by field, made when the batched query raised.\<close>

fun individual_queries :: "http \<Rightarrow> string \<Rightarrow> string \<Rightarrow> string list \<Rightarrow> (string \<times> string) list
                           \<Rightarrow> (string \<times> string) list" where
  "individual_queries client table safe_name [] st = st"
| "individual_queries client table safe_name (field_to_query # fs) st =
     (case get_json client (cargo_params table field_to_query (page_name_is safe_name)) of
        Inl e \<Rightarrow> individual_queries client table safe_name fs st
      | Inr ind_data \<Rightarrow>
          (case rows ind_data of
             [] \<Rightarrow> individual_queries client table safe_name fs st
           | None # _ \<Rightarrow> individual_queries client table safe_name fs st
           | Some t # _ \<Rightarrow> individual_queries client table safe_name fs (store_stats t [field_to_query] st)))"

text \<open>The batched request of step 3.\<close>

definition sup_params :: "catalog \<Rightarrow> string \<Rightarrow> string \<Rightarrow> params" where
  "sup_params CARGO_MAPPING supplementary_table safe_name =
     cargo_params supplementary_table (py_join '','' (valid_fields CARGO_MAPPING supplementary_table))
       (page_name_is safe_name)"

definition fetch_supplementary :: "catalog \<Rightarrow> http \<Rightarrow> Item \<Rightarrow> Item" where
  "fetch_supplementary CARGO_MAPPING client item =
     (case get_table_for_class (item_class item) of
        None \<Rightarrow> item
      | Some supplementary_table \<Rightarrow>
          if supplementary_table = [] \<or> valid_fields CARGO_MAPPING supplementary_table = [] then item
          else (case get_json client (sup_params CARGO_MAPPING supplementary_table (safe (name item))) of
                  Inr sup_data \<Rightarrow>
                    (case rows sup_data of
                       [] \<Rightarrow> item
                     | None # _ \<Rightarrow>
                         item\<lparr>stats := individual_queries client supplementary_table (safe (name item))
                                          (valid_fields CARGO_MAPPING supplementary_table) (stats item)\<rparr>
                     | Some sup_item # _ \<Rightarrow>
                         item\<lparr>stats := store_stats sup_item
                                          (valid_fields CARGO_MAPPING supplementary_table) (stats item)\<rparr>)
                | Inl e \<Rightarrow>
                    item\<lparr>stats := individual_queries client supplementary_table (safe (name item))
                                     (valid_fields CARGO_MAPPING supplementary_table) (stats item)\<rparr>))"

definition populate_item_details :: "catalog \<Rightarrow> template \<Rightarrow> http \<Rightarrow> Item \<Rightarrow> bool \<Rightarrow> Item" where
  "populate_item_details CARGO_MAPPING tmpl client item include_mods =
     (let item1 = (if include_mods
                   then (let m = resolve_mods CARGO_MAPPING tmpl client (name item)
                         in item\<lparr>implicit_mods := fst m, explicit_mods := snd m\<rparr>)
                   else item)
      in fetch_supplementary CARGO_MAPPING client (fetch_metadata client item1))"

section \<open>api.py: search and single-item lookup\<close>

fun titles_of :: "row list \<Rightarrow> exn + title list" where
  "titles_of [] = Inr []"
| "titles_of (None # rs) = Inl KeyError"
| "titles_of (Some t # rs) = (case titles_of rs of Inl e \<Rightarrow> Inl e | Inr ts \<Rightarrow> Inr (t # ts))"

definition or_unknown :: "string option \<Rightarrow> string" where
  "or_unknown v = (case v of Some s \<Rightarrow> if s \<noteq> [] then s else ''Unknown'' | None \<Rightarrow> ''Unknown'')"

definition make_item :: "(string \<Rightarrow> string option) \<Rightarrow> title \<Rightarrow> Item" where
  "make_item image_urls item_data =
     \<lparr>name = or_unknown (item_data ''name''),
      rarity = or_unknown (item_data ''rarity''),
      item_class = or_unknown (item_data ''class''),
      required_level = None, flavour_text = None, description = None,
      implicit_mods = None, explicit_mods = None,
      image_url = (case item_data ''inventory icon'' of None \<Rightarrow> None | Some icon \<Rightarrow> image_urls icon),
      stats = []\<rparr>"

text \<open>
  \<open>list(set(...))\<close> of the non-empty icon names: the distinct names, in an order that
  Python leaves open; \<open>remdups\<close> fixes one.
\<close>

definition icon_files_of :: "title list \<Rightarrow> string list" where
  "icon_files_of raw_results =
     remdups (concat (map (\<lambda>item. case item ''inventory icon'' of
                                     None \<Rightarrow> []
                                   | Some icon \<Rightarrow> if icon \<noteq> [] then [icon] else []) raw_results))"

definition search_params :: "string \<Rightarrow> int \<Rightarrow> params" where
  "search_params name_query limit =
     [(''action'', PStr ''cargoquery''), (''tables'', PStr ''items''),
      (''fields'', PStr ''name,rarity,class,inventory_icon''),
      (''where'', PStr (''name LIKE '' @ [CHR 0x22] @ ''%'' @ name_query @ ''%'' @ [CHR 0x22])),
      (''order by'', PStr ''drop_enabled DESC, name''), (''limit'', PInt limit),
      (''format'', PStr ''json'')]"

definition query_items :: "catalog \<Rightarrow> template \<Rightarrow> http \<Rightarrow> string \<Rightarrow> int \<Rightarrow> bool \<Rightarrow> bool
                            \<Rightarrow> exn + Item list" where
  "query_items CARGO_MAPPING tmpl client name_query limit detailed include_mods =
     (case get_json_checked client (search_params name_query limit) of
        Inl e \<Rightarrow> Inl e
      | Inr data \<Rightarrow>
          if has_error data then Inr []
          else (case titles_of (rows data) of
                  Inl e \<Rightarrow> Inl e
                | Inr raw_results \<Rightarrow>
                    (let icon_files = icon_files_of raw_results;
                         image_urls = (if icon_files \<noteq> [] then get_image_urls client icon_files
                                       else Map.empty)
                     in Inr (map (\<lambda>item_data.
                                    if detailed
                                    then populate_item_details CARGO_MAPPING tmpl client
                                           (make_item image_urls item_data) include_mods
                                    else make_item image_urls item_data) raw_results))))"

text \<open>The two passes of \<open>get_item_details\<close> over the search results.\<close>

definition exact_match :: "string \<Rightarrow> Item \<Rightarrow> bool" where
  "exact_match nm item = (py_lower (name item) = py_lower nm)"

definition substring_match :: "string \<Rightarrow> Item \<Rightarrow> bool" where
  "substring_match nm item = py_in (py_lower nm) (py_lower (name item))"

definition find_target :: "string \<Rightarrow> Item list \<Rightarrow> Item option" where
  "find_target nm results =
     (case find (exact_match nm) results of
        Some item \<Rightarrow> Some item
      | None \<Rightarrow> find (substring_match nm) results)"

definition get_item_details :: "catalog \<Rightarrow> template \<Rightarrow> http \<Rightarrow> string \<Rightarrow> bool \<Rightarrow> exn + Item option" where
  "get_item_details CARGO_MAPPING tmpl client nm include_mods =
     (case query_items CARGO_MAPPING tmpl client nm 10 False True of
        Inl e \<Rightarrow> Inl e
      | Inr results \<Rightarrow>
          if results = [] then Inr None
          else (case find_target nm results of
                  Some target_item \<Rightarrow>
                    Inr (Some (populate_item_details CARGO_MAPPING tmpl client target_item include_mods))
                | None \<Rightarrow> Inr None))"

section \<open>bot.py: rendering an item\<close>

text \<open>\<open>html.escape(s)\<close> with its default \<open>quote=True\<close>.\<close>

definition escape_char :: "char \<Rightarrow> string" where
  "escape_char c =
     (if c = CHR ''&'' then ''&amp;''
      else if c = CHR ''<'' then ''&lt;''
      else if c = CHR ''>'' then ''&gt;''
      else if c = CHR 0x22 then ''&quot;''
      else if c = CHR 0x27 then ''&#x27;''
      else [c])"

definition html_escape :: "string \<Rightarrow> string" where
  "html_escape s = concat (map escape_char s)"

definition newline :: string where
  "newline = [CHR 0x0A]"

text \<open>
  \<open>format_map\<close>: a key and its format string, the latter as the text before and after
  the \<open>{}\<close>.
\<close>

definition format_map :: "(string \<times> string \<times> string) list" where
  "format_map =
    [(''critical_strike_chance_range_text'', ''Critical Strike Chance: '', []),
     (''critical_strike_chance'', ''Critical Strike Chance: '', ''%''),
     (''attack_speed_range_text'', ''Attacks per Second: '', []),
     (''attack_speed'', ''Attacks per Second: '', []),
     (''weapon_range_range_text'', ''Weapon Range: '', []),
     (''weapon_range'', ''Weapon Range: '', []),
     (''armour_range_text'', ''Armour: '', []),
     (''armour'', ''Armour: '', []),
     (''evasion_range_text'', ''Evasion Rating: '', []),
     (''evasion'', ''Evasion Rating: '', []),
     (''energy_shield_range_text'', ''Energy Shield: '', []),
     (''energy_shield'', ''Energy Shield: '', []),
     (''ward_range_text'', ''Ward: '', []),
     (''ward'', ''Ward: '', []),
     (''map_tier'', ''Map Tier: '', []),
     (''gem_tags'', ''Tags: '', []),
     (''primary_attribute'', ''Primary Attribute: '', [])]"

text \<open>
  The state of the stat section: \<open>display_stats\<close>, the copy of the item's mapping that
  the code pops from, and the lines collected in \<open>stats\<close>.
\<close>

type_synonym stat_state = "(string \<times> string) list \<times> string list"

text \<open>The three-way choice for physical damage.\<close>

definition physical_damage :: "stat_state \<Rightarrow> stat_state" where
  "physical_damage st =
     (let display_stats = fst st; lines = snd st
      in case map_of display_stats ''physical_damage_range_text'' of
           Some v \<Rightarrow>
             (AList.delete ''physical_damage_max''
                (AList.delete ''physical_damage_min''
                   (AList.delete ''physical_damage_range_text'' display_stats)),
              lines @ [''Physical Damage: '' @ v])
         | None \<Rightarrow>
             (case (map_of display_stats ''physical_damage_min'',
                    map_of display_stats ''physical_damage_max'') of
                (Some lo, Some hi) \<Rightarrow>
                  (AList.delete ''physical_damage_max''
                     (AList.delete ''physical_damage_min'' display_stats),
                   lines @ [''Physical Damage: '' @ lo @ ''-'' @ hi])
              | _ \<Rightarrow>
                  (case map_of display_stats ''physical_damage'' of
                     Some v \<Rightarrow>
                       (AList.delete ''physical_damage'' display_stats,
                        lines @ [''Physical Damage: '' @ v])
                   | None \<Rightarrow> (display_stats, lines))))"

text \<open>
  One round of \<open>for key, fmt in format_map.items()\<close>. The two-decimal rendering
  \<open>f"{float(val):.2f}"\<close> is floating-point arithmetic of the Python runtime and enters
  as the parameter \<open>two_decimals\<close>, \<open>None\<close> when \<open>float(val)\<close> raises.
\<close>

definition format_entry :: "(string \<Rightarrow> string option) \<Rightarrow> string \<times> string \<times> string \<Rightarrow> stat_state \<Rightarrow> stat_state" where
  "format_entry two_decimals entry st =
     (let key = fst entry; before = fst (snd entry); after = snd (snd entry);
          display_stats = fst st; lines = snd st
      in case map_of display_stats key of
           None \<Rightarrow> st
         | Some val0 \<Rightarrow>
             (let popped = AList.delete key display_stats;
                  base_key = py_replace ''_range_text'' [] key;
                  display_stats' =
                    (if py_in ''_range_text'' key
                     then AList.delete (base_key @ ''_max'')
                            (AList.delete (base_key @ ''_min'') (AList.delete base_key popped))
                     else popped);
                  val = (if key = ''critical_strike_chance'' \<and> \<not> suffix ''_range_text'' key
                         then (case two_decimals val0 of None \<Rightarrow> val0 | Some r \<Rightarrow> r)
                         else val0)
              in (display_stats', lines @ [before @ html_escape val @ after])))"

definition format_known :: "(string \<Rightarrow> string option) \<Rightarrow> stat_state \<Rightarrow> stat_state" where
  "format_known two_decimals st = fold (format_entry two_decimals) format_map st"

text \<open>
  The last loop, over what is left in \<open>display_stats\<close>. \<open>str.title()\<close> is the
  parameter \<open>title_case\<close>.
\<close>

definition leftover_line :: "(string \<Rightarrow> string) \<Rightarrow> string \<times> string \<Rightarrow> string list" where
  "leftover_line title_case kv =
     (let key = fst kv; val = snd kv
      in if val \<noteq> [] \<and> val \<noteq> ''0'' \<and> \<not> prefix ''_'' key \<and> \<not> py_in ''html'' key
         then [html_escape (title_case (py_replace ''_'' '' '' (py_replace ''_range_text'' [] key)))
               @ '': '' @ html_escape val]
         else [])"

definition stat_lines :: "(string \<Rightarrow> string option) \<Rightarrow> (string \<Rightarrow> string) \<Rightarrow> Item \<Rightarrow> string list" where
  "stat_lines two_decimals title_case item_obj =
     (let st = format_known two_decimals (physical_damage (stats item_obj, []));
          lines = snd st @ (if truthy (required_level item_obj)
                            then [''Requires Level '' @ html_escape (the (required_level item_obj))]
                            else [])
      in lines @ concat (map (leftover_line title_case) (fst st)))"

definition mods_part :: "string option \<Rightarrow> string list" where
  "mods_part mods =
     (if truthy mods
      then [py_replace ''&lt;br/&gt;'' newline (py_replace ''&lt;br&gt;'' newline (html_escape (the mods)))]
      else [])"

text \<open>
  \<open>format_content\<close> is local to \<open>resolve_item_details\<close> and reads its \<open>wiki_url\<close>.
\<close>

definition format_content :: "(string \<Rightarrow> string option) \<Rightarrow> (string \<Rightarrow> string) \<Rightarrow> string \<Rightarrow> Item \<Rightarrow> bool \<Rightarrow> string" where
  "format_content two_decimals title_case wiki_url item_obj loading_mods =
     (let lines = stat_lines two_decimals title_case item_obj;
          parts =
            [''<b><a href='' @ [CHR 0x22] @ html_escape wiki_url @ [CHR 0x22] @ ''>''
               @ html_escape (name item_obj) @ ''</a></b>'',
             ''<i>'' @ html_escape (item_class item_obj) @ ''</i>'']
            @ (if lines \<noteq> [] then [py_join newline lines] else [])
            @ mods_part (implicit_mods item_obj)
            @ mods_part (explicit_mods item_obj)
            @ (if loading_mods then [''<b><i>Loading mods...</i></b>''] else [])
            @ (if truthy (description item_obj) then [html_escape (the (description item_obj))] else [])
            @ (if truthy (flavour_text item_obj)
               then [''<i>'' @ html_escape (the (flavour_text item_obj)) @ ''</i>''] else []);
          image_part =
            (if truthy (image_url item_obj)
             then ''<a href='' @ [CHR 0x22] @ html_escape (the (image_url item_obj)) @ [CHR 0x22]
                  @ ''>&#8205;</a>''
             else [])
      in image_part @ py_join (newline @ newline) parts)"

section \<open>bot.py: the character budget\<close>

text \<open>
  Both phases of \<open>resolve_item_details\<close> cut the rendered content the same way before
  they send it: \<open>if len(content) > 4000: content = content[:4000] + "..."\<close>.
\<close>

definition truncate_content :: "string \<Rightarrow> string" where
  "truncate_content content =
     (if length content > 4000 then take 4000 content @ ''...'' else content)"

section \<open>Mod templates as token lists\<close>
















text \<open>A mod whose range has decimal bounds, with one observation of 0.3.\<close>

definition leech_text :: string where
  "leech_text = ''(0.2-0.4)% of Physical Attack Damage Leeched as Life''"


section \<open>The keys the stat section knows by name\<close>

text \<open>
  The keys that one round of the \<open>format_map\<close> loop reads or pops, and with the four
  keys of physical damage all keys that the stat section treats by name.
\<close>

definition entry_keys :: "string \<Rightarrow> string list" where
  "entry_keys key =
     (if py_in ''_range_text'' key
      then [key, py_replace ''_range_text'' [] key, py_replace ''_range_text'' [] key @ ''_min'',
            py_replace ''_range_text'' [] key @ ''_max'']
      else [key])"

definition special_keys :: "string list" where
  "special_keys =
     [''physical_damage_range_text'', ''physical_damage_min'', ''physical_damage_max'',
      ''physical_damage'']
     @ concat (map (\<lambda>entry. entry_keys (fst entry)) format_map)"

section \<open>Sample inputs\<close>

text \<open>
  Concrete values of the parameters, for running the definitions. \<open>no_template\<close>
  rejects every replacement template that holds a backslash, \<open>no_float\<close> lets every
  conversion to \<open>float\<close> fail, and \<open>plain_title\<close> leaves a label as it is.
\<close>

definition no_template :: template where
  "no_template repl = None"

definition no_float :: "string \<Rightarrow> string option" where
  "no_float val = None"

definition plain_title :: "string \<Rightarrow> string" where
  "plain_title label = label"

text \<open>A service that answers every request with the given status and an error object.\<close>

definition error_server :: "nat \<Rightarrow> http" where
  "error_server status ps =
     Response status (Some \<lparr>has_error = True, cargoquery = None, pages = []\<rparr>)"

definition answer :: "title list \<Rightarrow> response" where
  "answer ts = Response 200 (Some \<lparr>has_error = False, cargoquery = Some (map Some ts), pages = []\<rparr>)"

text \<open>
  A small wiki. Its search returns two swords whatever the query; the items table knows
  the implicit mod text and no explicit one; the three tables of the fallback path
  describe two explicit mods and one mod that carries both flags.
\<close>

definition demo_server :: http where
  "demo_server ps =
     (let tables = map_of ps ''tables''; flds = map_of ps ''fields''
      in if tables = Some (PStr ''items'') \<and> flds = Some (PStr ''name,rarity,class,inventory_icon'')
         then answer [[''name'' \<mapsto> ''Voidforge'', ''rarity'' \<mapsto> ''Unique'', ''class'' \<mapsto> ''Two-Handed Sword''],
                      [''name'' \<mapsto> ''Starforge'', ''rarity'' \<mapsto> ''Unique'', ''class'' \<mapsto> ''Two-Handed Sword'']]
         else if tables = Some (PStr ''items'') \<and> flds = Some (PStr ''implicit mods'')
         then answer [[''implicit mods'' \<mapsto> ''30% increased Accuracy'']]
         else if tables = Some (PStr ''item_mods'')
         then answer [[''id'' \<mapsto> ''m1'', ''is implicit'' \<mapsto> ''0'', ''is explicit'' \<mapsto> ''1''],
                      [''id'' \<mapsto> ''m2'', ''is implicit'' \<mapsto> ''1'', ''is explicit'' \<mapsto> ''1''],
                      [''id'' \<mapsto> ''m3'', ''is implicit'' \<mapsto> ''0'', ''is explicit'' \<mapsto> ''1'']]
         else if tables = Some (PStr ''mods'')
         then answer [[''id'' \<mapsto> ''m1'', ''stat text'' \<mapsto> ''(400-500)% increased [[Physical Damage]]''],
                      [''id'' \<mapsto> ''m2'', ''stat text'' \<mapsto> ''+# to Accuracy''],
                      [''id'' \<mapsto> ''m3'', ''stat text'' \<mapsto> ''+# to maximum Life'']]
         else if tables = Some (PStr ''item_stats'')
         then answer [[''mod id'' \<mapsto> ''m1'', ''min'' \<mapsto> ''450'', ''max'' \<mapsto> ''450''],
                      [''mod id'' \<mapsto> ''m3'', ''min'' \<mapsto> ''90'', ''max'' \<mapsto> ''100'']]
         else answer [])"

definition sword :: "string \<Rightarrow> Item" where
  "sword nm =
     \<lparr>name = nm, rarity = ''Unique'', item_class = ''Two-Handed Sword'',
      required_level = None, flavour_text = None, description = None,
      implicit_mods = None, explicit_mods = None, image_url = None, stats = []\<rparr>"

definition weapons_catalog :: catalog where
  "weapons_catalog =
     [(''weapons'', [''name'', ''attack_speed'', ''physical_damage_min'', ''Colour'', ''dps_average''])]"

text \<open>A body armour with no evasion.\<close>

definition plate_vest :: Item where
  "plate_vest =
     \<lparr>name = ''Plate Vest'', rarity = ''Normal'', item_class = ''Body Armour'',
      required_level = None, flavour_text = None, description = None,
      implicit_mods = None, explicit_mods = None, image_url = None,
      stats = [(''armour'', ''14''), (''evasion'', ''0'')]\<rparr>"

definition plate_vest_url :: string where
  "plate_vest_url = ''https://www.poewiki.net/wiki/Plate_Vest''"


section \<open>The character budget\<close>

text \<open>
  C6. A rendered body longer than 4000 characters is delivered as its first 4000
  characters followed by the three-dot marker; whatever the body, the delivered content
  has at most 4096 characters.
\<close>

theorem C6_truncate_content:
  "(length content > 4000 \<longrightarrow> truncate_content content = take 4000 content @ ''...'')
   \<and> length (truncate_content content) \<le> 4096"
  by (simp add: truncate_content_def)

theorem C6_truncate_content_witness:
  "length (replicate 4001 CHR ''a'') > 4000
   \<and> truncate_content (replicate 4001 CHR ''a'') = take 4000 (replicate 4001 CHR ''a'') @ ''...''
   \<and> length (truncate_content (replicate 4001 CHR ''a'')) \<le> 4096"
  using C6_truncate_content [of "replicate 4001 CHR ''a''"] by simp

section \<open>The field catalog\<close>

text \<open>
  C8. With an empty catalog, which is what a failed load leaves, \<open>validate_field\<close>
  answers true for every table and field. With any other catalog it answers true
  exactly when the field, or the field with its spaces turned into underscores, is in
  the field list of the table (the empty list for a table the catalog does not know).
\<close>

theorem C8_validate_field:
  "validate_field [] table field
   \<and> (CARGO_MAPPING \<noteq> [] \<longrightarrow>
        validate_field CARGO_MAPPING table field =
          (field \<in> set (get_fields_for_table CARGO_MAPPING table)
           \<or> py_replace '' '' ''_'' field \<in> set (get_fields_for_table CARGO_MAPPING table)))"
  by (auto simp: validate_field_def get_fields_for_table_def Let_def)

theorem C8_validate_field_witness:
  "weapons_catalog \<noteq> []
   \<and> validate_field [] ''weapons'' ''attack speed''
   \<and> validate_field weapons_catalog ''weapons'' ''attack speed''
   \<and> \<not> validate_field weapons_catalog ''weapons'' ''armour''
   \<and> \<not> validate_field weapons_catalog ''armours'' ''attack_speed''"
proof -
  have n: "py_replace '' '' ''_'' ''attack speed'' = ''attack_speed''"
    "py_replace '' '' ''_'' ''armour'' = ''armour''"
    "py_replace '' '' ''_'' ''attack_speed'' = ''attack_speed''"
    by code_simp+
  show ?thesis
    using C8_validate_field [of "''weapons''" "''attack speed''" weapons_catalog]
      C8_validate_field [of "''weapons''" "''armour''" weapons_catalog]
      C8_validate_field [of "''armours''" "''attack_speed''" weapons_catalog]
    by (simp add: n weapons_catalog_def get_fields_for_table_def)
qed

section \<open>The supplementary query\<close>

text \<open>
  C4. The \<open>fields\<close> parameter of the batched supplementary query is the comma-joined
  list \<open>valid_fields\<close>, and every field in that list is none of the six identity fields,
  holds none of \<open>_min\<close>, \<open>_max\<close>, \<open>average\<close>, \<open>color\<close>, \<open>colour\<close> once lower-cased,
  and passes \<open>validate_field\<close> for the table.
\<close>

theorem C4_valid_fields:
  "map_of (sup_params CARGO_MAPPING table safe_name) ''fields''
     = Some (PStr (py_join '','' (valid_fields CARGO_MAPPING table)))
   \<and> (\<forall>f \<in> set (valid_fields CARGO_MAPPING table).
         f \<notin> {''name'', ''item_class'', ''rarity'', ''implicit_mods'', ''explicit_mods'', ''flavour_text''}
         \<and> \<not> py_in ''_min'' (py_lower f) \<and> \<not> py_in ''_max'' (py_lower f)
         \<and> \<not> py_in ''average'' (py_lower f) \<and> \<not> py_in ''color'' (py_lower f)
         \<and> \<not> py_in ''colour'' (py_lower f)
         \<and> validate_field CARGO_MAPPING table f)"
  by (simp add: sup_params_def cargo_params_def valid_fields_def identity_fields_def
        excluded_patterns_def)

theorem C4_valid_fields_witness:
  "valid_fields weapons_catalog ''weapons'' = [''attack_speed'']
   \<and> map_of (sup_params weapons_catalog ''weapons'' ''Starforge'') ''fields'' = Some (PStr ''attack_speed'')
   \<and> \<not> py_in ''_min'' (py_lower ''attack_speed'')
   \<and> validate_field weapons_catalog ''weapons'' ''attack_speed''"
proof -
  have v: "valid_fields weapons_catalog ''weapons'' = [''attack_speed'']"
    by code_simp
  show ?thesis
    using C4_valid_fields [of weapons_catalog "''weapons''" "''Starforge''"]
    by (simp add: v)
qed

section \<open>Search\<close>

text \<open>
  C5, as the claim states it, fails: an answer whose body is an error object is only
  read after \<open>raise_for_status()\<close>, so with status 500 the search raises.
\<close>

theorem C5_query_items_counterexample:
  "query_items [] no_template (error_server 500) ''Starforge'' 10 False True = Inl HTTPStatusError"
  by code_simp

text \<open>
  C5, amended. When the answer to the search request has a 2xx status and its JSON
  body holds an \<open>error\<close> key, \<open>query_items\<close> returns the empty list.
\<close>

theorem C5_query_items_error_envelope:
  "client (search_params name_query limit) = Response status (Some data)
   \<Longrightarrow> 200 \<le> status \<Longrightarrow> status < 300 \<Longrightarrow> has_error data
   \<Longrightarrow> query_items CARGO_MAPPING tmpl client name_query limit detailed include_mods = Inr []"
  by (simp add: query_items_def get_json_checked_def raise_for_status_def)

theorem C5_query_items_error_envelope_witness:
  "error_server 200 (search_params ''Starforge'' 10)
     = Response 200 (Some \<lparr>has_error = True, cargoquery = None, pages = []\<rparr>)
   \<and> has_error \<lparr>has_error = True, cargoquery = None, pages = []\<rparr>
   \<and> query_items [] no_template (error_server 200) ''Starforge'' 10 True True = Inr []"
proof -
  have r: "error_server 200 (search_params ''Starforge'' 10)
     = Response 200 (Some \<lparr>has_error = True, cargoquery = None, pages = []\<rparr>)"
    by (simp add: error_server_def)
  show ?thesis
    using C5_query_items_error_envelope
      [where client = "error_server 200" and name_query = "''Starforge''" and limit = 10
         and status = 200 and data = "\<lparr>has_error = True, cargoquery = None, pages = []\<rparr>"
         and CARGO_MAPPING = "[]" and tmpl = no_template and detailed = True
         and include_mods = True] r
    by simp
qed

section \<open>Single-item lookup\<close>

lemma fetch_metadata_keeps:
  "name (fetch_metadata client item) = name item"
  "implicit_mods (fetch_metadata client item) = implicit_mods item"
  "explicit_mods (fetch_metadata client item) = explicit_mods item"
  by (simp_all add: fetch_metadata_def split: sum.splits list.splits option.splits)

lemma fetch_supplementary_keeps:
  "name (fetch_supplementary CARGO_MAPPING client item) = name item"
  "implicit_mods (fetch_supplementary CARGO_MAPPING client item) = implicit_mods item"
  "explicit_mods (fetch_supplementary CARGO_MAPPING client item) = explicit_mods item"
  by (simp_all add: fetch_supplementary_def split: sum.splits list.splits option.splits)

lemma populate_item_details_name:
  "name (populate_item_details CARGO_MAPPING tmpl client item include_mods) = name item"
  by (simp add: populate_item_details_def Let_def fetch_metadata_keeps fetch_supplementary_keeps)

text \<open>
  C3. When the search returns and no returned item passes the match test (its
  lower-cased name neither equals the lower-cased query nor contains it), which
  includes the search that returns no item, \<open>get_item_details\<close> returns \<open>None\<close> and
  does not raise.
\<close>

theorem C3_get_item_details_absent:
  "query_items CARGO_MAPPING tmpl client nm 10 False True = Inr results
   \<Longrightarrow> \<forall>item \<in> set results. py_lower (name item) \<noteq> py_lower nm
                              \<and> \<not> py_in (py_lower nm) (py_lower (name item))
   \<Longrightarrow> get_item_details CARGO_MAPPING tmpl client nm include_mods = Inr None"
proof -
  assume q: "query_items CARGO_MAPPING tmpl client nm 10 False True = Inr results"
    and no: "\<forall>item \<in> set results. py_lower (name item) \<noteq> py_lower nm
                              \<and> \<not> py_in (py_lower nm) (py_lower (name item))"
  have "find (exact_match nm) results = None"
    using no by (simp add: find_None_iff exact_match_def)
  moreover have "find (substring_match nm) results = None"
    using no by (simp add: find_None_iff substring_match_def)
  ultimately have "find_target nm results = None"
    by (simp add: find_target_def)
  then show ?thesis
    using q by (simp add: get_item_details_def)
qed

theorem C3_get_item_details_absent_witness:
  "query_items [] no_template demo_server ''Headhunter'' 10 False True
     = Inr [sword ''Voidforge'', sword ''Starforge'']
   \<and> get_item_details [] no_template demo_server ''Headhunter'' True = Inr None
   \<and> query_items [] no_template (error_server 200) ''Headhunter'' 10 False True = Inr []
   \<and> get_item_details [] no_template (error_server 200) ''Headhunter'' True = Inr None"
proof -
  have q1: "query_items [] no_template demo_server ''Headhunter'' 10 False True
     = Inr [sword ''Voidforge'', sword ''Starforge'']"
    by code_simp
  have n1: "\<forall>item \<in> set [sword ''Voidforge'', sword ''Starforge''].
      py_lower (name item) \<noteq> py_lower ''Headhunter''
      \<and> \<not> py_in (py_lower ''Headhunter'') (py_lower (name item))"
    by code_simp
  have q2: "query_items [] no_template (error_server 200) ''Headhunter'' 10 False True = Inr []"
    by code_simp
  have n2: "\<forall>item \<in> set ([] :: Item list).
      py_lower (name item) \<noteq> py_lower ''Headhunter''
      \<and> \<not> py_in (py_lower ''Headhunter'') (py_lower (name item))"
    by simp
  show ?thesis
    using C3_get_item_details_absent [OF q1 n1, of True]
      C3_get_item_details_absent [OF q2 n2, of True] q1 q2
    by simp
qed

text \<open>
  C10. An item returned by \<open>get_item_details\<close> has a name that, lower-cased, equals the
  lower-cased query or contains it.
\<close>

theorem C10_get_item_details_match:
  "get_item_details CARGO_MAPPING tmpl client nm include_mods = Inr (Some item)
   \<Longrightarrow> py_lower (name item) = py_lower nm \<or> py_in (py_lower nm) (py_lower (name item))"
  by (auto simp: get_item_details_def find_target_def exact_match_def substring_match_def
        find_Some_iff populate_item_details_name split: sum.splits if_splits option.splits)

theorem C10_get_item_details_match_witness:
  "get_item_details [] no_template demo_server ''star'' False = Inr (Some (sword ''Starforge''))
   \<and> (py_lower (name (sword ''Starforge'')) = py_lower ''star''
        \<or> py_in (py_lower ''star'') (py_lower (name (sword ''Starforge''))))"
proof -
  have g: "get_item_details [] no_template demo_server ''star'' False = Inr (Some (sword ''Starforge''))"
    by code_simp
  show ?thesis
    using C10_get_item_details_match [OF g] g by simp
qed

section \<open>The merge of the two mod paths\<close>

text \<open>
  C1. After \<open>populate_item_details\<close> with mods included, each of the two mod fields is
  the value of the primary path when that value is non-empty; otherwise, when the
  fallback list of that side is non-empty, it is that list joined with \<open><br>\<close>;
  otherwise it stays what the primary path left.
\<close>

theorem C1_populate_item_details_mods:
  "implicit_mods (populate_item_details CARGO_MAPPING tmpl client item True) =
     (if truthy (primary_mod CARGO_MAPPING client (safe (name item)) ''implicit_mods'')
      then primary_mod CARGO_MAPPING client (safe (name item)) ''implicit_mods''
      else if fst (get_mods_fallback tmpl client (name item)) \<noteq> []
      then Some (py_join ''<br>'' (fst (get_mods_fallback tmpl client (name item))))
      else primary_mod CARGO_MAPPING client (safe (name item)) ''implicit_mods'')
   \<and> explicit_mods (populate_item_details CARGO_MAPPING tmpl client item True) =
     (if truthy (primary_mod CARGO_MAPPING client (safe (name item)) ''explicit_mods'')
      then primary_mod CARGO_MAPPING client (safe (name item)) ''explicit_mods''
      else if snd (get_mods_fallback tmpl client (name item)) \<noteq> []
      then Some (py_join ''<br>'' (snd (get_mods_fallback tmpl client (name item))))
      else primary_mod CARGO_MAPPING client (safe (name item)) ''explicit_mods'')"
  by (simp add: populate_item_details_def resolve_mods_def Let_def fetch_metadata_keeps
        fetch_supplementary_keeps)

theorem C1_populate_item_details_mods_witness:
  "primary_mod [] demo_server (safe ''Starforge'') ''implicit_mods'' = Some ''30% increased Accuracy''
   \<and> primary_mod [] demo_server (safe ''Starforge'') ''explicit_mods'' = None
   \<and> get_mods_fallback no_template demo_server ''Starforge''
       = ([''+# to Accuracy''], [''450% increased Physical Damage'', ''+# to maximum Life''])
   \<and> implicit_mods (populate_item_details [] no_template demo_server (sword ''Starforge'') True)
       = Some ''30% increased Accuracy''
   \<and> explicit_mods (populate_item_details [] no_template demo_server (sword ''Starforge'') True)
       = Some ''450% increased Physical Damage<br>+# to maximum Life''"
proof -
  have n: "name (sword ''Starforge'') = ''Starforge''"
    by (simp add: sword_def)
  have p: "primary_mod [] demo_server (safe ''Starforge'') ''implicit_mods'' = Some ''30% increased Accuracy''"
    "primary_mod [] demo_server (safe ''Starforge'') ''explicit_mods'' = None"
    by code_simp+
  have f: "get_mods_fallback no_template demo_server ''Starforge''
       = ([''+# to Accuracy''], [''450% increased Physical Damage'', ''+# to maximum Life''])"
    by code_simp
  show ?thesis
    using C1_populate_item_details_mods [of "[]" no_template demo_server "sword ''Starforge''"]
    by (simp add: n p f)
qed

section \<open>The two buckets of the fallback path\<close>

text \<open>
  C9. The loop over the mod texts handles the mods in order up to the first one whose
  text cannot be rendered or whose id has no flags. Of the mods handled, the implicit
  list receives the texts of exactly those flagged implicit, and the explicit list the
  texts of exactly those flagged explicit and not implicit: a mod with both flags goes
  to the implicit list only, a mod with neither flag to no list, and no mod to both.
\<close>

theorem C9_assemble_buckets:
  "assemble tmpl mod_info_map item_stats_map stat_texts (implicits, explicits) =
     (let done = takeWhile (\<lambda>m. \<not> isl (render_mod tmpl item_stats_map (fst m) (snd m))
                               \<and> map_of mod_info_map (fst m) \<noteq> None) stat_texts;
          text_of = (\<lambda>m. projr (render_mod tmpl item_stats_map (fst m) (snd m)));
          is_implicit = (\<lambda>m. fst (the (map_of mod_info_map (fst m))));
          is_explicit = (\<lambda>m. snd (the (map_of mod_info_map (fst m))))
      in (implicits @ map text_of (filter is_implicit done),
          explicits @ map text_of (filter (\<lambda>m. \<not> is_implicit m \<and> is_explicit m) done)))"
proof (induction stat_texts arbitrary: implicits explicits)
  case Nil
  then show ?case by simp
next
  case (Cons m ms)
  obtain mod_id stat_text where m: "m = (mod_id, stat_text)" by (cases m)
  show ?case
  proof (cases "render_mod tmpl item_stats_map mod_id stat_text")
    case (Inl e)
    then show ?thesis by (simp add: m)
  next
    case (Inr t)
    show ?thesis
    proof (cases "map_of mod_info_map mod_id")
      case None
      then show ?thesis by (simp add: m Inr)
    next
      case (Some flags)
      obtain i e where flags: "flags = (i, e)" by (cases flags)
      show ?thesis
        using Cons.IH by (simp add: m Inr Some flags Let_def)
    qed
  qed
qed

theorem C9_assemble_buckets_witness:
  "assemble no_template [(''both'', (True, True)), (''neither'', (False, False)), (''expl'', (False, True))]
     Map.empty [(''both'', ''a''), (''neither'', ''b''), (''expl'', ''c'')] ([], [])
   = ([''a''], [''c''])"
proof -
  have "(let done = takeWhile (\<lambda>m. \<not> isl (render_mod no_template Map.empty (fst m) (snd m))
                \<and> map_of [(''both'', (True, True)), (''neither'', (False, False)), (''expl'', (False, True))]
                     (fst m) \<noteq> None)
              [(''both'', ''a''), (''neither'', ''b''), (''expl'', ''c'')];
          text_of = (\<lambda>m. projr (render_mod no_template Map.empty (fst m) (snd m)));
          is_implicit = (\<lambda>m. fst (the (map_of
              [(''both'', (True, True)), (''neither'', (False, False)), (''expl'', (False, True))] (fst m))));
          is_explicit = (\<lambda>m. snd (the (map_of
              [(''both'', (True, True)), (''neither'', (False, False)), (''expl'', (False, True))] (fst m))))
      in ([] @ map text_of (filter is_implicit done),
          [] @ map text_of (filter (\<lambda>m. \<not> is_implicit m \<and> is_explicit m) done)))
     = ([''a''], [''c''])"
    by code_simp
  then show ?thesis
    using C9_assemble_buckets [of no_template
        "[(''both'', (True, True)), (''neither'', (False, False)), (''expl'', (False, True))]"
        Map.empty "[(''both'', ''a''), (''neither'', ''b''), (''expl'', ''c'')]" "[]" "[]"]
    by simp
qed

section \<open>Placeholders\<close>
































section \<open>Stats with an empty or zero value\<close>

text \<open>
  C7. A stat whose value is empty or \<open>"0"\<close> is to give no line. The last loop of
  the stat section, over the stats nothing else has taken, has that guard; the loop
  over \<open>format_map\<close> has none and prints the value it finds under one of its keys as
  it is. For an item whose \<open>evasion\<close> is \<open>"0"\<close> the code prints the line
  \<open>Evasion Rating: 0\<close>, against the claim.
\<close>

theorem C7_format_content_zero_stat:
  "map_of (stats plate_vest) ''evasion'' = Some ''0''
   \<and> stat_lines no_float plain_title plate_vest = [''Armour: 14'', ''Evasion Rating: 0'']
   \<and> py_in ''Evasion Rating: 0'' (format_content no_float plain_title plate_vest_url plate_vest False)"
  by code_simp

lemma physical_damage_subset: "set (fst (physical_damage st)) \<subseteq> set (fst st)"
  by (auto simp: physical_damage_def Let_def AList.delete_eq split: option.splits)

lemma format_entry_subset: "set (fst (format_entry td e st)) \<subseteq> set (fst st)"
  by (auto simp: format_entry_def Let_def AList.delete_eq split: option.splits)

lemma format_fold_subset: "set (fst (fold (format_entry td) es st)) \<subseteq> set (fst st)"
proof (induction es arbitrary: st)
  case Nil
  then show ?case by simp
next
  case (Cons e es)
  then show ?case using format_entry_subset [of td e st] by fastforce
qed

lemma map_of_delete_other: "k \<noteq> k' \<Longrightarrow> map_of (AList.delete k ds) k' = map_of ds k'"
  by (simp add: AList.delete_conv)

lemma physical_damage_delete:
  assumes "k \<notin> {''physical_damage_range_text'', ''physical_damage_min'', ''physical_damage_max'',
                 ''physical_damage''}"
  shows "physical_damage (AList.delete k ds, ls)
         = (AList.delete k (fst (physical_damage (ds, ls))), snd (physical_damage (ds, ls)))"
  using assms
  by (simp add: physical_damage_def Let_def map_of_delete_other AList.delete_twist [of k]
        split: option.splits)

lemma format_entry_delete:
  assumes "k \<notin> set (entry_keys (fst e))"
  shows "format_entry td e (AList.delete k ds, ls)
         = (AList.delete k (fst (format_entry td e (ds, ls))), snd (format_entry td e (ds, ls)))"
proof -
  have k: "k \<noteq> fst e" using assms by (simp add: entry_keys_def split: if_splits)
  then have m: "map_of (AList.delete k ds) (fst e) = map_of ds (fst e)"
    by (rule map_of_delete_other)
  show ?thesis
  proof (cases "map_of ds (fst e)")
    case None
    then show ?thesis using m by (simp add: format_entry_def)
  next
    case (Some val0)
    show ?thesis
    proof (cases "py_in ''_range_text'' (fst e)")
      case True
      then show ?thesis
        using m Some by (simp add: format_entry_def Let_def AList.delete_twist [of k])
    next
      case False
      then show ?thesis
        using m Some by (simp add: format_entry_def Let_def AList.delete_twist [of k])
    qed
  qed
qed

lemma format_fold_delete:
  "\<forall>e \<in> set es. k \<notin> set (entry_keys (fst e)) \<Longrightarrow>
   fold (format_entry td) es (AList.delete k ds, ls)
   = (AList.delete k (fst (fold (format_entry td) es (ds, ls))),
      snd (fold (format_entry td) es (ds, ls)))"
proof (induction es arbitrary: ds ls)
  case Nil
  then show ?case by simp
next
  case (Cons e es)
  obtain ds' ls' where r: "format_entry td e (ds, ls) = (ds', ls')"
    by (cases "format_entry td e (ds, ls)")
  have "format_entry td e (AList.delete k ds, ls) = (AList.delete k ds', ls')"
    using format_entry_delete [of k e td ds ls] Cons.prems r by simp
  then show ?case
    using Cons.IH [of ds' ls'] Cons.prems r by simp
qed

lemma leftover_delete:
  "\<forall>v. (k, v) \<in> set ds \<longrightarrow> v = [] \<or> v = ''0'' \<Longrightarrow>
   concat (map (leftover_line tc) (AList.delete k ds)) = concat (map (leftover_line tc) ds)"
proof (induction ds)
  case Nil
  then show ?case by simp
next
  case (Cons p ds)
  then show ?case
    by (cases p) (auto simp: leftover_line_def)
qed

lemma stat_lines_delete:
  assumes "k \<notin> set special_keys"
    and "\<forall>v. (k, v) \<in> set (stats item_obj) \<longrightarrow> v = [] \<or> v = ''0''"
  shows "stat_lines td tc (item_obj\<lparr>stats := AList.delete k (stats item_obj)\<rparr>)
         = stat_lines td tc item_obj"
proof -
  obtain ds1 ls1 where p: "physical_damage (stats item_obj, []) = (ds1, ls1)"
    by (cases "physical_damage (stats item_obj, [])")
  obtain ds2 ls2 where f: "fold (format_entry td) format_map (ds1, ls1) = (ds2, ls2)"
    by (cases "fold (format_entry td) format_map (ds1, ls1)")
  have k4: "k \<notin> {''physical_damage_range_text'', ''physical_damage_min'',
                  ''physical_damage_max'', ''physical_damage''}"
    using assms(1) by (simp add: special_keys_def)
  have km: "\<forall>e \<in> set format_map. k \<notin> set (entry_keys (fst e))"
    using assms(1) by (simp add: special_keys_def)
  have p': "physical_damage (AList.delete k (stats item_obj), []) = (AList.delete k ds1, ls1)"
    using physical_damage_delete [OF k4, of "stats item_obj" "[]"] p by simp
  have f': "fold (format_entry td) format_map (AList.delete k ds1, ls1) = (AList.delete k ds2, ls2)"
    using format_fold_delete [OF km, of td ds1 ls1] f by simp
  have "set ds2 \<subseteq> set (stats item_obj)"
    using physical_damage_subset [of "(stats item_obj, [])"]
      format_fold_subset [of td format_map "(ds1, ls1)"] p f by auto
  then have "\<forall>v. (k, v) \<in> set ds2 \<longrightarrow> v = [] \<or> v = ''0''"
    using assms(2) by blast
  then have "concat (map (leftover_line tc) (AList.delete k ds2)) = concat (map (leftover_line tc) ds2)"
    by (rule leftover_delete)
  then show ?thesis
    by (simp add: stat_lines_def format_known_def p p' f f')
qed

text \<open>
  The guard of the last loop. A stat whose key is none of the keys the stat section
  knows by name and whose value is empty or \<open>"0"\<close> is left out: the rendered content
  is the same as for the item without that stat.
\<close>

lemma format_content_leftover:
  assumes "k \<notin> set special_keys"
    and "\<forall>v. (k, v) \<in> set (stats item_obj) \<longrightarrow> v = [] \<or> v = ''0''"
  shows "format_content two_decimals title_case wiki_url
           (item_obj\<lparr>stats := AList.delete k (stats item_obj)\<rparr>) loading_mods
         = format_content two_decimals title_case wiki_url item_obj loading_mods"
  by (simp add: format_content_def stat_lines_delete [OF assms])

lemma format_content_leftover_example:
  "''block'' \<notin> set special_keys
   \<and> map_of (stats (plate_vest\<lparr>stats := [(''armour'', ''14''), (''block'', ''0'')]\<rparr>)) ''block'' = Some ''0''
   \<and> format_content no_float plain_title plate_vest_url
        (plate_vest\<lparr>stats := [(''armour'', ''14''), (''block'', ''0'')]\<rparr>) True
     = format_content no_float plain_title plate_vest_url
        (plate_vest\<lparr>stats := [(''armour'', ''14'')]\<rparr>) True"
proof -
  have k: "''block'' \<notin> set special_keys"
    by code_simp
  have z: "\<forall>v. (''block'', v) \<in> set (stats (plate_vest\<lparr>stats := [(''armour'', ''14''), (''block'', ''0'')]\<rparr>))
            \<longrightarrow> v = [] \<or> v = ''0''"
    by simp
  show ?thesis
    using format_content_leftover [OF k z, of no_float plain_title plate_vest_url True] k
    by simp
qed

end
